theory Spec2Isabelle
  imports Complex_Main "HOL-Library.Word"
begin

section \<open>Numbers\<close>

text \<open>
  A C++ \<open>double\<close> is modelled by a \<open>real\<close>: rounding error and overflow are idealised
  away.  The one source of non-finite values that the controller's code can reach, a
  division whose divisor is zero, is kept explicit: a quotient is either finite or one of
  the IEEE special values.  (Signed zeros are not distinguished; every divisor below is a
  sum of values clamped at \<open>+0\<close>.)
\<close>

datatype quotient = Finite real | PlusInf | MinusInf | NaN

definition ieee_div :: "real \<Rightarrow> real \<Rightarrow> quotient" where
  "ieee_div a b =
     (if b \<noteq> 0 then Finite (a / b)
      else if a = 0 then NaN
      else if 0 < a then PlusInf
      else MinusInf)"

text \<open>\<open>std::max(a, b)\<close> returns \<open>b\<close> when \<open>a < b\<close> and \<open>a\<close> otherwise.\<close>

definition std_max :: "real \<Rightarrow> real \<Rightarrow> real" where
  "std_max a b = (if a < b then b else a)"

text \<open>\<open>std::round\<close> rounds to the nearest integer, halfway cases away from zero.\<close>

definition std_round :: "real \<Rightarrow> real" where
  "std_round x = (if 0 \<le> x then of_int \<lfloor>x + 1 / 2\<rfloor> else of_int \<lceil>x - 1 / 2\<rceil>)"

text \<open>
  Modelled from the spec: \<open>capture_walking/utils/clamp.h\<close> is not among the sources.  The
  spec says that a setter clamps to the documented range and that a value outside the
  range yields the nearest boundary; a value inside the range is kept.
\<close>

definition clamp :: "real \<Rightarrow> real \<Rightarrow> real \<Rightarrow> real" where
  "clamp v vMin vMax = (if vMax < v then vMax else if v < vMin then vMin else v)"


section \<open>Contacts and configuration dictionaries\<close>

type_synonym Vector3d = "real \<times> real \<times> real"

text \<open>
  An \<open>mc_rtc::Configuration\<close> is a dictionary from keys to dynamically typed values.
  \<open>has\<close> tests for a key, the call operator fetches the entry, and the implicit
  conversion of an entry to \<open>double\<close> or \<open>Eigen::Vector3d\<close> throws when the entry has
  another type.
\<close>

datatype ConfigValue = Number real | Vector3 Vector3d | Text string

type_synonym Configuration = "string \<rightharpoonup> ConfigValue"

datatype config_error = KeyMissing | BadConversion

definition has :: "Configuration \<Rightarrow> string \<Rightarrow> bool" where
  "has cfg key = (cfg key \<noteq> None)"

definition as_double :: "Configuration \<Rightarrow> string \<Rightarrow> config_error + real" where
  "as_double cfg key =
     (case cfg key of
        None \<Rightarrow> Inl KeyMissing
      | Some (Number x) \<Rightarrow> Inr x
      | Some _ \<Rightarrow> Inl BadConversion)"

definition as_Vector3d :: "Configuration \<Rightarrow> string \<Rightarrow> config_error + Vector3d" where
  "as_Vector3d cfg key =
     (case cfg key of
        None \<Rightarrow> Inl KeyMissing
      | Some (Vector3 v) \<Rightarrow> Inr v
      | Some _ \<Rightarrow> Inl BadConversion)"

text \<open>
  Modelled from the spec: \<open>capture_walking/Contact.h\<close> is not among the sources.  The
  spec's data model gives a contact an ordinal id, a pose, a named surface and the
  per-contact swing overrides; the functions below read \<open>id\<close> (here \<open>id_c\<close>) and
  \<open>swingConfig\<close>.  The pose is a rotation (roll, pitch, yaw) and a translation.
\<close>

record Contact =
  id_c :: int
  pose :: "Vector3d \<times> Vector3d"
  surface :: string
  swingConfig :: Configuration


section \<open>FootstepPlan\<close>

text \<open>
  The data members of \<open>struct FootstepPlan\<close>, in the order of the header.  A private
  member \<open>x_\<close> of the source is the field \<open>x_m\<close> here (a name cannot end in an
  underscore); a setter, which the source overloads on the getter's name, is \<open>x_set\<close>.
  \<open>unsigned nextFootstep_\<close> is a natural number: no claim depends on its wrap-around.
\<close>

record FootstepPlan =
  name :: string
  nextContact_m :: Contact
  prevContact_m :: Contact
  supportContact_m :: Contact
  targetContact_m :: Contact
  takeoffOffset_m :: Vector3d
  comHeight_m :: real
  doubleSupportDuration_m :: real
  finalDSPDuration_m :: real
  initDSPDuration_m :: real
  landingPitch_m :: real
  landingRatio_m :: real
  singleSupportDuration_m :: real
  swingHeight_m :: real
  takeoffPitch_m :: real
  takeoffRatio_m :: real
  contacts_m :: "Contact list"
  nextFootstep_m :: nat

subsection \<open>Plain getters\<close>

definition comHeight :: "FootstepPlan \<Rightarrow> real" where
  "comHeight p = comHeight_m p"

definition contacts :: "FootstepPlan \<Rightarrow> Contact list" where
  "contacts p = contacts_m p"

definition doubleSupportDuration :: "FootstepPlan \<Rightarrow> real" where
  "doubleSupportDuration p = doubleSupportDuration_m p"

definition finalDSPDuration :: "FootstepPlan \<Rightarrow> real" where
  "finalDSPDuration p = finalDSPDuration_m p"

definition initDSPDuration :: "FootstepPlan \<Rightarrow> real" where
  "initDSPDuration p = initDSPDuration_m p"

definition singleSupportDuration :: "FootstepPlan \<Rightarrow> real" where
  "singleSupportDuration p = singleSupportDuration_m p"

definition nextContact :: "FootstepPlan \<Rightarrow> Contact" where
  "nextContact p = nextContact_m p"

definition prevContact :: "FootstepPlan \<Rightarrow> Contact" where
  "prevContact p = prevContact_m p"

definition supportContact :: "FootstepPlan \<Rightarrow> Contact" where
  "supportContact p = supportContact_m p"

definition targetContact :: "FootstepPlan \<Rightarrow> Contact" where
  "targetContact p = targetContact_m p"

subsection \<open>Swing getters: per-contact override first, plan default otherwise\<close>

definition landingPitch :: "FootstepPlan \<Rightarrow> config_error + real" where
  "landingPitch p =
     (if has (swingConfig (prevContact_m p)) ''landing_pitch''
      then as_double (swingConfig (prevContact_m p)) ''landing_pitch''
      else Inr (landingPitch_m p))"

definition landingRatio :: "FootstepPlan \<Rightarrow> config_error + real" where
  "landingRatio p =
     (if has (swingConfig (supportContact_m p)) ''landing_ratio''
      then as_double (swingConfig (supportContact_m p)) ''landing_ratio''
      else Inr (landingRatio_m p))"

definition swingHeight :: "FootstepPlan \<Rightarrow> config_error + real" where
  "swingHeight p =
     (if has (swingConfig (prevContact_m p)) ''height''
      then as_double (swingConfig (prevContact_m p)) ''height''
      else Inr (swingHeight_m p))"

definition takeoffOffset :: "FootstepPlan \<Rightarrow> config_error + Vector3d" where
  "takeoffOffset p =
     (if has (swingConfig (prevContact_m p)) ''takeoff_offset''
      then as_Vector3d (swingConfig (prevContact_m p)) ''takeoff_offset''
      else Inr (takeoffOffset_m p))"

definition takeoffPitch :: "FootstepPlan \<Rightarrow> config_error + real" where
  "takeoffPitch p =
     (if has (swingConfig (prevContact_m p)) ''takeoff_pitch''
      then as_double (swingConfig (prevContact_m p)) ''takeoff_pitch''
      else Inr (takeoffPitch_m p))"

definition takeoffRatio :: "FootstepPlan \<Rightarrow> config_error + real" where
  "takeoffRatio p =
     (if has (swingConfig (supportContact_m p)) ''takeoff_ratio''
      then as_double (swingConfig (supportContact_m p)) ''takeoff_ratio''
      else Inr (takeoffRatio_m p))"

subsection \<open>Setters\<close>

text \<open>
  \<open>HorizontalMPC::SAMPLING_PERIOD\<close> is declared in a header that is not among the
  sources; the two setters that use it take it as the parameter \<open>T\<close>.
\<close>

definition comHeight_set :: "real \<Rightarrow> FootstepPlan \<Rightarrow> FootstepPlan" where
  "comHeight_set height p = p\<lparr>comHeight_m := clamp height (7 / 10) (85 / 100)\<rparr>"

definition doubleSupportDuration_set :: "real \<Rightarrow> real \<Rightarrow> FootstepPlan \<Rightarrow> FootstepPlan" where
  "doubleSupportDuration_set T duration p =
     (let duration' = std_round (duration / T) * T
      in p\<lparr>doubleSupportDuration_m := clamp duration' 0 1\<rparr>)"

definition finalDSPDuration_set :: "real \<Rightarrow> FootstepPlan \<Rightarrow> FootstepPlan" where
  "finalDSPDuration_set duration p = p\<lparr>finalDSPDuration_m := clamp duration 0 (16 / 10)\<rparr>"

definition initDSPDuration_set :: "real \<Rightarrow> FootstepPlan \<Rightarrow> FootstepPlan" where
  "initDSPDuration_set duration p = p\<lparr>initDSPDuration_m := clamp duration 0 (16 / 10)\<rparr>"

definition landingPitch_set :: "real \<Rightarrow> FootstepPlan \<Rightarrow> FootstepPlan" where
  "landingPitch_set pitch p = p\<lparr>landingPitch_m := clamp pitch (- 1) 1\<rparr>"

definition landingRatio_set :: "real \<Rightarrow> FootstepPlan \<Rightarrow> FootstepPlan" where
  "landingRatio_set ratio p = p\<lparr>landingRatio_m := clamp ratio 0 (1 / 2)\<rparr>"

definition singleSupportDuration_set :: "real \<Rightarrow> real \<Rightarrow> FootstepPlan \<Rightarrow> FootstepPlan" where
  "singleSupportDuration_set T duration p =
     (let duration' = std_round (duration / T) * T
      in p\<lparr>singleSupportDuration_m := clamp duration' 0 2\<rparr>)"

definition swingHeight_set :: "real \<Rightarrow> FootstepPlan \<Rightarrow> FootstepPlan" where
  "swingHeight_set height p = p\<lparr>swingHeight_m := clamp height 0 (1 / 4)\<rparr>"

definition takeoffOffset_set :: "Vector3d \<Rightarrow> FootstepPlan \<Rightarrow> FootstepPlan" where
  "takeoffOffset_set offset p = p\<lparr>takeoffOffset_m := offset\<rparr>"

definition takeoffPitch_set :: "real \<Rightarrow> FootstepPlan \<Rightarrow> FootstepPlan" where
  "takeoffPitch_set pitch p = p\<lparr>takeoffPitch_m := clamp pitch (- 1) 1\<rparr>"

definition takeoffRatio_set :: "real \<Rightarrow> FootstepPlan \<Rightarrow> FootstepPlan" where
  "takeoffRatio_set ratio p = p\<lparr>takeoffRatio_m := clamp ratio 0 (1 / 2)\<rparr>"


subsection \<open>What the setters are expected to do\<close>

text \<open>
  \<open>clamps_to setter member lo hi\<close>: the setter stores its argument clamped to
  \<open>[lo, hi]\<close> in the member, so an argument below (above) the range yields the lower
  (upper) bound and one inside the range is stored as given, and setting the stored value
  again changes nothing.  \<open>rounds_and_clamps_to T setter member hi\<close>: the same for a
  setter that first rounds its argument to a multiple of \<open>T\<close> and then clamps to
  \<open>[0, hi]\<close>; an argument inside the range is then stored rounded, not as given.
\<close>

definition clamps_to ::
  "(real \<Rightarrow> FootstepPlan \<Rightarrow> FootstepPlan) \<Rightarrow> (FootstepPlan \<Rightarrow> real) \<Rightarrow> real \<Rightarrow> real \<Rightarrow> bool" where
  "clamps_to setter member lo hi \<longleftrightarrow>
     (\<forall>v p. member (setter v p) = clamp v lo hi
          \<and> (v < lo \<longrightarrow> member (setter v p) = lo)
          \<and> (hi < v \<longrightarrow> member (setter v p) = hi)
          \<and> (lo \<le> v \<and> v \<le> hi \<longrightarrow> member (setter v p) = v)
          \<and> setter (member (setter v p)) (setter v p) = setter v p)"

definition rounds_and_clamps_to ::
  "real \<Rightarrow> (real \<Rightarrow> FootstepPlan \<Rightarrow> FootstepPlan) \<Rightarrow> (FootstepPlan \<Rightarrow> real) \<Rightarrow> real \<Rightarrow> bool" where
  "rounds_and_clamps_to T setter member hi \<longleftrightarrow>
     (\<forall>v p. member (setter v p) = clamp (std_round (v / T) * T) 0 hi
          \<and> (v < 0 \<longrightarrow> member (setter v p) = 0)
          \<and> (hi < v \<longrightarrow> member (setter v p) = hi)
          \<and> setter (member (setter v p)) (setter v p) = setter v p)"


section \<open>Controller\<close>

datatype WalkingPatternGeneration = CaptureProblem | HorizontalMPC

text \<open>
  Modelled from the spec: \<open>capture_walking/Pendulum.h\<close> is not among the sources.  The
  spec's data model gives the pendulum a CoM position, velocity and acceleration and a
  pressure reference.
\<close>

record Pendulum =
  com :: Vector3d
  comd :: Vector3d
  comdd :: Vector3d
  zmp :: Vector3d

text \<open>
  Modelled from the spec: \<open>capture_walking/Preview.h\<close> is not among the sources.  The
  spec's data model gives the preview a finite sequence of pendulum states and a solved
  flag.
\<close>

record Preview =
  samples :: "Pendulum list"
  solved :: bool

text \<open>
  Members of \<open>struct Controller\<close>: the plan, the generator in use, the shared preview,
  the pendulum, the weight ratio with its jump indicator, the override of the
  double-support duration and the four counters of the generators.  The functions below
  read or write the plan, the override and the force sensors.  \<open>forceSensors\<close> stands for
  \<open>realRobot().forceSensor(name).force()\<close>: the force measured by the named sensor of the
  observed robot.  The four counters are \<open>unsigned\<close>.
\<close>

record Controller =
  plan :: FootstepPlan
  wpg :: WalkingPatternGeneration
  preview :: Preview
  forceSensors :: "string \<Rightarrow> Vector3d"
  pendulum_m :: Pendulum
  leftFootRatioJumped_m :: bool
  doubleSupportDurationOverride_m :: real
  leftFootRatio_m :: real
  nbCPSFailures_m :: "32 word"
  nbCPSUpdates_m :: "32 word"
  nbHMPCFailures_m :: "32 word"
  nbHMPCUpdates_m :: "32 word"

definition z_component :: "Vector3d \<Rightarrow> real" where
  "z_component v = snd (snd v)"

definition Controller_leftFootRatio :: "Controller \<Rightarrow> real" where
  "Controller_leftFootRatio c = leftFootRatio_m c"

text \<open>
  \<open>Controller::measuredLeftFootRatio\<close> reads the two sensors, clamps both forces at zero
  and divides; it assigns to its two locals only, so the model is a function of the
  controller that returns the quotient.
\<close>

definition Controller_measuredLeftFootRatio :: "Controller \<Rightarrow> quotient" where
  "Controller_measuredLeftFootRatio c =
     (let leftFootPressure = z_component (forceSensors c ''LeftFootForceSensor'');
          rightFootPressure = z_component (forceSensors c ''RightFootForceSensor'');
          leftFootPressure' = std_max 0 leftFootPressure;
          rightFootPressure' = std_max 0 rightFootPressure
      in ieee_div leftFootPressure' (leftFootPressure' + rightFootPressure'))"

text \<open>
  \<open>Controller::doubleSupportDuration\<close> is not \<open>const\<close>: it returns the duration and
  consumes the override.
\<close>

definition Controller_doubleSupportDuration :: "Controller \<Rightarrow> real \<times> Controller" where
  "Controller_doubleSupportDuration c =
     (if 0 < doubleSupportDurationOverride_m c
      then (doubleSupportDurationOverride_m c, c\<lparr>doubleSupportDurationOverride_m := - 1\<rparr>)
      else (doubleSupportDuration (plan c), c))"

definition Controller_nextDoubleSupportDuration :: "real \<Rightarrow> Controller \<Rightarrow> Controller" where
  "Controller_nextDoubleSupportDuration duration c = c\<lparr>doubleSupportDurationOverride_m := duration\<rparr>"

definition Controller_singleSupportDuration :: "Controller \<Rightarrow> real" where
  "Controller_singleSupportDuration c = singleSupportDuration (plan c)"

definition Controller_isLastSSP :: "Controller \<Rightarrow> bool" where
  "Controller_isLastSSP c = (id_c (targetContact (plan c)) > id_c (nextContact (plan c)))"

definition Controller_isLastDSP :: "Controller \<Rightarrow> bool" where
  "Controller_isLastDSP c = (id_c (supportContact (plan c)) > id_c (targetContact (plan c)))"

text \<open>
  A run of \<open>n\<close> successive calls of \<open>Controller::doubleSupportDuration\<close>: the durations
  returned, in order, and the controller after the last call.
\<close>

fun doubleSupportDuration_calls :: "nat \<Rightarrow> Controller \<Rightarrow> real list \<times> Controller" where
  "doubleSupportDuration_calls 0 c = ([], c)"
| "doubleSupportDuration_calls (Suc n) c =
     (let (d, c') = Controller_doubleSupportDuration c;
          (ds, c'') = doubleSupportDuration_calls n c'
      in (d # ds, c''))"



section \<open>Sample data\<close>

text \<open>
  The four-contact plan \<open>[L0, R1, L2, R3]\<close> of the spec's scenario, with the timing
  defaults of the member initialisers of \<open>struct FootstepPlan\<close>.  \<open>L0\<close> overrides the swing
  height and the takeoff offset, \<open>R1\<close> the takeoff ratio.  In \<open>sample_plan\<close> the robot stands
  on \<open>R1\<close> after its first step.
\<close>

definition L0 :: Contact where
  "L0 = \<lparr>id_c = 0, pose = ((0, 0, 0), (0, 9 / 100, 0)), surface = ''LeftFootCenter'',
         swingConfig = [''height'' \<mapsto> Number (7 / 100),
                        ''takeoff_offset'' \<mapsto> Vector3 (- 3 / 100, 0, 0)]\<rparr>"

definition R1 :: Contact where
  "R1 = \<lparr>id_c = 1, pose = ((0, 0, 0), (2 / 10, - 9 / 100, 0)), surface = ''RightFootCenter'',
         swingConfig = [''takeoff_ratio'' \<mapsto> Number (1 / 10)]\<rparr>"

definition L2 :: Contact where
  "L2 = \<lparr>id_c = 2, pose = ((0, 0, 0), (4 / 10, 9 / 100, 0)), surface = ''LeftFootCenter'',
         swingConfig = Map.empty\<rparr>"

definition R3 :: Contact where
  "R3 = \<lparr>id_c = 3, pose = ((0, 0, 0), (4 / 10, - 9 / 100, 0)), surface = ''RightFootCenter'',
         swingConfig = Map.empty\<rparr>"

definition sample_plan :: FootstepPlan where
  "sample_plan =
     \<lparr>name = ''sample'',
      nextContact_m = R3, prevContact_m = L0, supportContact_m = R1, targetContact_m = L2,
      takeoffOffset_m = (0, 0, 0),
      comHeight_m = 78 / 100,
      doubleSupportDuration_m = 2 / 10,
      finalDSPDuration_m = 6 / 10,
      initDSPDuration_m = 6 / 10,
      landingPitch_m = 0,
      landingRatio_m = 5 / 100,
      singleSupportDuration_m = 8 / 10,
      swingHeight_m = 4 / 100,
      takeoffPitch_m = 0,
      takeoffRatio_m = 5 / 100,
      contacts_m = [L0, R1, L2, R3],
      nextFootstep_m = 2\<rparr>"

text \<open>
  Two sensor readings: the robot standing with 300 N on the left foot and 100 N on the
  right, and the robot in the air, where the left sensor reads a small negative force and
  the right sensor reads zero.
\<close>

definition standing_forces :: "string \<Rightarrow> Vector3d" where
  "standing_forces sensor =
     (if sensor = ''LeftFootForceSensor'' then (0, 0, 300)
      else if sensor = ''RightFootForceSensor'' then (0, 0, 100)
      else (0, 0, 0))"

definition airborne_forces :: "string \<Rightarrow> Vector3d" where
  "airborne_forces sensor =
     (if sensor = ''LeftFootForceSensor'' then (0, 0, - 2)
      else if sensor = ''RightFootForceSensor'' then (0, 0, 0)
      else (0, 0, 0))"

definition sample_pendulum :: Pendulum where
  "sample_pendulum = \<lparr>com = (0, 0, 78 / 100), comd = (0, 0, 0), comdd = (0, 0, 0), zmp = (0, 0, 0)\<rparr>"

definition sample_controller :: Controller where
  "sample_controller =
     \<lparr>plan = sample_plan,
      wpg = CaptureProblem,
      preview = \<lparr>samples = [sample_pendulum], solved = True\<rparr>,
      forceSensors = standing_forces,
      pendulum_m = sample_pendulum,
      leftFootRatioJumped_m = False,
      doubleSupportDurationOverride_m = - 1,
      leftFootRatio_m = 1 / 2,
      nbCPSFailures_m = 0,
      nbCPSUpdates_m = 7,
      nbHMPCFailures_m = 0,
      nbHMPCUpdates_m = 0\<rparr>"

definition airborne_controller :: Controller where
  "airborne_controller = sample_controller\<lparr>forceSensors := airborne_forces\<rparr>"


section \<open>The weight ratio measured by the foot sensors\<close>

lemma std_max_zero: "std_max 0 x = max 0 x"
  by (simp add: std_max_def max_def)

text \<open>
  Claim C1, as the code has it.  Write \<open>Fl\<close> and \<open>Fr\<close> for the vertical forces read from
  the left and right foot sensors.  Whenever the clamped forces do not both vanish,
  \<open>measuredLeftFootRatio\<close> returns the finite value \<open>max(0,Fl) / (max(0,Fl) + max(0,Fr))\<close>,
  which lies between 0 and 1.  When both clamped forces are zero the function has no
  guard: it divides zero by zero and returns a NaN.  (Being a function of the controller
  it changes neither the stored ratio nor the jump indicator.)
\<close>

theorem measuredLeftFootRatio_range:
  fixes c :: Controller
  defines "Fl \<equiv> z_component (forceSensors c ''LeftFootForceSensor'')"
  defines "Fr \<equiv> z_component (forceSensors c ''RightFootForceSensor'')"
  shows "(0 < max 0 Fl + max 0 Fr \<longrightarrow>
            Controller_measuredLeftFootRatio c = Finite (max 0 Fl / (max 0 Fl + max 0 Fr))
          \<and> 0 \<le> max 0 Fl / (max 0 Fl + max 0 Fr)
          \<and> max 0 Fl / (max 0 Fl + max 0 Fr) \<le> 1)
       \<and> (\<not> 0 < max 0 Fl + max 0 Fr \<longrightarrow> Controller_measuredLeftFootRatio c = NaN)"
proof (intro conjI impI)
  assume pos: "0 < max 0 Fl + max 0 Fr"
  show "Controller_measuredLeftFootRatio c = Finite (max 0 Fl / (max 0 Fl + max 0 Fr))"
    using pos
    by (simp add: Controller_measuredLeftFootRatio_def Let_def ieee_div_def std_max_zero
        Fl_def Fr_def)
  show "0 \<le> max 0 Fl / (max 0 Fl + max 0 Fr)"
    using pos by simp
  show "max 0 Fl / (max 0 Fl + max 0 Fr) \<le> 1"
    using pos by (simp add: divide_le_eq_1)
next
  assume "\<not> 0 < max 0 Fl + max 0 Fr"
  then have "max 0 Fl = 0" "max 0 Fr = 0"
    by (simp_all add: max_def split: if_splits)
  then show "Controller_measuredLeftFootRatio c = NaN"
    by (simp add: Controller_measuredLeftFootRatio_def Let_def ieee_div_def std_max_zero
        Fl_def Fr_def)
qed

lemma sensors_standing:
  "z_component (forceSensors sample_controller ''LeftFootForceSensor'') = 300"
  "z_component (forceSensors sample_controller ''RightFootForceSensor'') = 100"
  by (simp_all add: sample_controller_def standing_forces_def z_component_def)

lemma sensors_airborne:
  "z_component (forceSensors airborne_controller ''LeftFootForceSensor'') = - 2"
  "z_component (forceSensors airborne_controller ''RightFootForceSensor'') = 0"
  by (simp_all add: airborne_controller_def airborne_forces_def z_component_def)

theorem measuredLeftFootRatio_range_witness:
  "Controller_measuredLeftFootRatio sample_controller = Finite (3 / 4)
   \<and> Controller_measuredLeftFootRatio airborne_controller = NaN"
  using measuredLeftFootRatio_range [of sample_controller]
        measuredLeftFootRatio_range [of airborne_controller]
  by (simp add: sensors_standing sensors_airborne)

text \<open>
  Claim C1 as stated fails when no foot presses on the ground: with \<open>-2\<close> N and \<open>0\<close> N on
  the sensors both clamped forces are zero and the function returns a NaN instead of a
  ratio in \<open>[0, 1]\<close>.
\<close>

theorem measuredLeftFootRatio_airborne_counterexample:
  "Controller_measuredLeftFootRatio airborne_controller = NaN"
  by (simp add: Controller_measuredLeftFootRatio_def Let_def ieee_div_def std_max_def
      sensors_airborne)


section \<open>The one-shot override of the double-support duration\<close>

lemma doubleSupportDuration_calls_idle:
  "\<not> 0 < doubleSupportDurationOverride_m c \<Longrightarrow>
   doubleSupportDuration_calls n c = (replicate n (doubleSupportDuration (plan c)), c)"
  by (induction n) (simp_all add: Controller_doubleSupportDuration_def)

text \<open>
  Claim C10.  Let \<open>c1\<close> be the controller after \<open>nextDoubleSupportDuration(d)\<close>.  If
  \<open>d > 0\<close>, the next call of \<open>doubleSupportDuration()\<close> returns \<open>d\<close> and leaves the
  controller with the override reset to \<open>-1\<close>, and from there any number of further calls
  return the plan's double-support duration and leave the controller as it is.  If
  \<open>d \<le> 0\<close>, the override never takes effect: every call returns the plan's duration.
\<close>

theorem doubleSupportDuration_override_one_shot:
  fixes c :: Controller and d :: real
  defines "c1 \<equiv> Controller_nextDoubleSupportDuration d c"
  defines "c2 \<equiv> snd (Controller_doubleSupportDuration c1)"
  shows "(0 < d \<longrightarrow>
            fst (Controller_doubleSupportDuration c1) = d
          \<and> c2 = c\<lparr>doubleSupportDurationOverride_m := - 1\<rparr>
          \<and> (\<forall>n. doubleSupportDuration_calls n c2
                   = (replicate n (doubleSupportDuration (plan c)), c2)))
       \<and> (\<not> 0 < d \<longrightarrow>
            (\<forall>n. doubleSupportDuration_calls n c1
                   = (replicate n (doubleSupportDuration (plan c)), c1)))"
proof (intro conjI impI allI)
  assume d: "0 < d"
  show "fst (Controller_doubleSupportDuration c1) = d"
    using d
    by (simp add: c1_def Controller_doubleSupportDuration_def
        Controller_nextDoubleSupportDuration_def)
  show c2: "c2 = c\<lparr>doubleSupportDurationOverride_m := - 1\<rparr>"
    using d
    by (simp add: c2_def c1_def Controller_doubleSupportDuration_def
        Controller_nextDoubleSupportDuration_def)
  fix n
  have "\<not> 0 < doubleSupportDurationOverride_m c2"
    by (simp add: c2)
  from doubleSupportDuration_calls_idle [OF this, of n]
  show "doubleSupportDuration_calls n c2 = (replicate n (doubleSupportDuration (plan c)), c2)"
    by (simp add: c2)
next
  fix n
  assume d: "\<not> 0 < d"
  have "\<not> 0 < doubleSupportDurationOverride_m c1"
    using d by (simp add: c1_def Controller_nextDoubleSupportDuration_def)
  from doubleSupportDuration_calls_idle [OF this, of n]
  show "doubleSupportDuration_calls n c1 = (replicate n (doubleSupportDuration (plan c)), c1)"
    by (simp add: c1_def Controller_nextDoubleSupportDuration_def)
qed

lemma sample_plan_dsd: "doubleSupportDuration (plan sample_controller) = 1 / 5"
  by (simp add: sample_controller_def sample_plan_def doubleSupportDuration_def)

theorem doubleSupportDuration_override_one_shot_witness:
  "fst (Controller_doubleSupportDuration
          (Controller_nextDoubleSupportDuration (3 / 10) sample_controller)) = 3 / 10
   \<and> fst (doubleSupportDuration_calls 3
            (snd (Controller_doubleSupportDuration
                   (Controller_nextDoubleSupportDuration (3 / 10) sample_controller))))
       = replicate 3 (1 / 5)
   \<and> fst (doubleSupportDuration_calls 2
            (Controller_nextDoubleSupportDuration 0 sample_controller)) = replicate 2 (1 / 5)"
proof -
  have pos: "(0::real) < 3 / 10" and nonpos: "\<not> (0::real) < 0"
    by simp_all
  note a = doubleSupportDuration_override_one_shot [of "3 / 10" sample_controller,
      THEN conjunct1, rule_format, OF pos]
  note b = doubleSupportDuration_override_one_shot [of 0 sample_controller,
      THEN conjunct2, rule_format, OF nonpos]
  from a have a1: "fst (Controller_doubleSupportDuration
          (Controller_nextDoubleSupportDuration (3 / 10) sample_controller)) = 3 / 10"
    by (rule conjunct1)
  from a [THEN conjunct2, THEN conjunct2, rule_format, of 3]
  have a3: "fst (doubleSupportDuration_calls 3
            (snd (Controller_doubleSupportDuration
                   (Controller_nextDoubleSupportDuration (3 / 10) sample_controller))))
       = replicate 3 (1 / 5)"
    by (simp only: sample_plan_dsd fst_conv)
  from b [of 2] have b2: "fst (doubleSupportDuration_calls 2
            (Controller_nextDoubleSupportDuration 0 sample_controller)) = replicate 2 (1 / 5)"
    by (simp only: sample_plan_dsd fst_conv)
  from a1 a3 b2 show ?thesis by (intro conjI)
qed

section \<open>Rounding to the sampling grid\<close>

lemma std_round_of_int: "std_round (of_int k) = of_int k"
  unfolding std_round_def by (simp; linarith)

lemma std_round_is_int: "\<exists>k::int. std_round x = of_int k"
  unfolding std_round_def by auto

lemma std_round_half: "\<bar>std_round x - x\<bar> \<le> 1 / 2"
proof (cases "0 \<le> x")
  case True
  have "\<bar>of_int \<lfloor>x + 1 / 2\<rfloor> - x\<bar> \<le> 1 / 2"
    by linarith
  with True show ?thesis
    by (simp only: std_round_def if_True)
next
  case False
  have "\<bar>of_int \<lceil>x - 1 / 2\<rceil> - x\<bar> \<le> 1 / 2"
    by linarith
  with False show ?thesis
    by (simp only: std_round_def if_False)
qed

lemma std_round_nearest: "\<bar>std_round x - x\<bar> \<le> \<bar>of_int k - x\<bar>"
proof (cases "of_int k = std_round x")
  case True
  then show ?thesis by simp
next
  case False
  obtain j :: int where j: "std_round x = of_int j"
    using std_round_is_int by blast
  with False have "k \<noteq> j" by auto
  then have "1 \<le> \<bar>real_of_int k - real_of_int j\<bar>"
    by linarith
  moreover have "\<bar>real_of_int j - x\<bar> \<le> 1 / 2"
    using std_round_half [of x] j by simp
  ultimately show ?thesis
    using j by linarith
qed

lemma std_round_small: "0 \<le> x \<Longrightarrow> x \<le> 1 / 4 \<Longrightarrow> std_round x = 0"
proof -
  assume "0 \<le> x" "x \<le> 1 / 4"
  then have "\<lfloor>x + 1 / 2\<rfloor> = 0"
    by linarith
  with \<open>0 \<le> x\<close> show ?thesis
    by (simp add: std_round_def)
qed

lemma std_round_ge: "of_int n \<le> x \<Longrightarrow> of_int n \<le> std_round x"
  unfolding std_round_def by (simp; linarith)

lemma std_round_le: "x \<le> of_int n \<Longrightarrow> std_round x \<le> of_int n"
  unfolding std_round_def by (simp; linarith)

lemma grid_nearest:
  assumes "0 < T"
  shows "\<bar>std_round (d / T) * T - d\<bar> \<le> \<bar>of_int k * T - d\<bar>"
proof -
  have e: "\<bar>y * T - d\<bar> = \<bar>y - d / T\<bar> * T" for y
  proof -
    have "y * T - d = (y - d / T) * T"
      using assms by (simp add: left_diff_distrib)
    then show ?thesis
      using assms by (simp add: abs_mult)
  qed
  have "\<bar>std_round (d / T) * T - d\<bar> = \<bar>std_round (d / T) - d / T\<bar> * T"
    by (rule e)
  also have "\<dots> \<le> \<bar>of_int k - d / T\<bar> * T"
    using assms std_round_nearest [of "d / T" k] by (simp add: mult_right_mono)
  also have "\<dots> = \<bar>of_int k * T - d\<bar>"
    by (rule e [symmetric])
  finally show ?thesis .
qed

lemma clamp_idem: "lo \<le> hi \<Longrightarrow> clamp (clamp v lo hi) lo hi = clamp v lo hi"
  by (simp add: clamp_def)

lemma clamp_below: "lo \<le> hi \<Longrightarrow> v < lo \<Longrightarrow> clamp v lo hi = lo"
  by (simp add: clamp_def)

lemma clamp_above: "hi < v \<Longrightarrow> clamp v lo hi = hi"
  by (simp add: clamp_def)

lemma clamp_inside: "lo \<le> v \<Longrightarrow> v \<le> hi \<Longrightarrow> clamp v lo hi = v"
  by (simp add: clamp_def)

lemma grid_clamp_fixed:
  assumes T: "0 < T" and hi: "hi = of_int n * T" and "0 \<le> hi"
  shows "clamp (std_round (clamp (std_round (v / T) * T) 0 hi / T) * T) 0 hi
           = clamp (std_round (v / T) * T) 0 hi"
proof -
  obtain j :: int where j: "std_round (v / T) = of_int j"
    using std_round_is_int by blast
  have r: "std_round (of_int k * T / T) = of_int k" for k :: int
    using T by (simp add: std_round_of_int)
  have "\<exists>k::int. clamp (of_int j * T) 0 hi = of_int k * T"
    unfolding clamp_def using hi by (metis (full_types) mult_zero_left of_int_0)
  then obtain k :: int where k: "clamp (of_int j * T) 0 hi = of_int k * T"
    by blast
  have "clamp (of_int k * T) 0 hi = of_int k * T"
    using k clamp_idem [OF \<open>0 \<le> hi\<close>, of "of_int j * T"] by simp
  moreover have "std_round (of_int k * T / T) = of_int k"
    by (rule r)
  ultimately show ?thesis
    by (simp only: j k)
qed

lemma grid_clamp_below:
  assumes T: "0 < T" and "0 \<le> hi" and v: "v < 0"
  shows "clamp (std_round (v / T) * T) 0 hi = 0"
proof -
  have "v / T \<le> of_int 0"
    using T v by (simp add: divide_le_0_iff)
  then have "std_round (v / T) \<le> 0"
    using std_round_le [of "v / T" 0] by simp
  then have "std_round (v / T) * T \<le> 0"
    using T by (simp add: mult_le_0_iff)
  then show ?thesis
    using \<open>0 \<le> hi\<close> by (auto simp: clamp_def)
qed

lemma grid_clamp_above:
  assumes T: "0 < T" and hi: "hi = of_int n * T" and "0 \<le> hi" and v: "hi < v"
  shows "clamp (std_round (v / T) * T) 0 hi = hi"
proof -
  have "of_int n \<le> v / T"
    using T v hi by (simp add: pos_le_divide_eq)
  then have "of_int n \<le> std_round (v / T)"
    by (rule std_round_ge)
  then have "hi \<le> std_round (v / T) * T"
    using T hi by simp
  with \<open>0 \<le> hi\<close> show ?thesis
    by (auto simp: clamp_def)
qed

lemma clamp_grid:
  assumes "0 < T"
  shows "(\<exists>k::int. clamp (std_round (d / T) * T) 0 hi = of_int k * T)
         \<or> clamp (std_round (d / T) * T) 0 hi = hi"
proof -
  obtain j :: int where j: "std_round (d / T) = of_int j"
    using std_round_is_int by blast
  have zero: "(0::real) = of_int 0 * T" by simp
  show ?thesis
    unfolding clamp_def j using zero by (metis (full_types))
qed

lemma round_53: "std_round ((53 / 100) / (1 / 10)) = 5"
  by (simp add: std_round_def)

lemma round_55: "std_round ((11 / 20) / (1 / 10)) = 6"
  by (simp add: std_round_def)


section \<open>Duration setters\<close>

text \<open>
  Claim C3, as the code has it.  Let \<open>T > 0\<close> be the sampling period.  The setters of the
  double- and single-support durations store \<open>round(d / T) * T\<close> clamped to \<open>[0, 1]\<close> and
  \<open>[0, 2]\<close>; \<open>round(d / T) * T\<close> is a multiple of \<open>T\<close> and no multiple of \<open>T\<close> is
  nearer to \<open>d\<close>; the stored duration is a multiple of \<open>T\<close> whenever the upper bound of
  its range is itself a multiple of \<open>T\<close>.  The setters of the initial and final
  double-support durations do not round: they store \<open>d\<close> clamped to \<open>[0, 1.6]\<close>.
\<close>

theorem duration_setters_rounding:
  assumes "0 < T"
  shows "doubleSupportDuration_m (doubleSupportDuration_set T d p)
           = clamp (std_round (d / T) * T) 0 1
       \<and> singleSupportDuration_m (singleSupportDuration_set T d p)
           = clamp (std_round (d / T) * T) 0 2
       \<and> (\<exists>k::int. std_round (d / T) * T = of_int k * T)
       \<and> (\<forall>k::int. \<bar>std_round (d / T) * T - d\<bar> \<le> \<bar>of_int k * T - d\<bar>)
       \<and> ((\<exists>n::int. 1 = of_int n * T) \<longrightarrow>
            (\<exists>k::int. doubleSupportDuration_m (doubleSupportDuration_set T d p) = of_int k * T))
       \<and> ((\<exists>n::int. 2 = of_int n * T) \<longrightarrow>
            (\<exists>k::int. singleSupportDuration_m (singleSupportDuration_set T d p) = of_int k * T))
       \<and> initDSPDuration_m (initDSPDuration_set d p) = clamp d 0 (16 / 10)
       \<and> finalDSPDuration_m (finalDSPDuration_set d p) = clamp d 0 (16 / 10)"
proof (intro conjI impI allI)
  show ds: "doubleSupportDuration_m (doubleSupportDuration_set T d p)
           = clamp (std_round (d / T) * T) 0 1"
    by (simp add: doubleSupportDuration_set_def Let_def)
  show ss: "singleSupportDuration_m (singleSupportDuration_set T d p)
           = clamp (std_round (d / T) * T) 0 2"
    by (simp add: singleSupportDuration_set_def Let_def)
  show "\<exists>k::int. std_round (d / T) * T = of_int k * T"
    using std_round_is_int [of "d / T"] by auto
  show "\<bar>std_round (d / T) * T - d\<bar> \<le> \<bar>of_int k * T - d\<bar>" for k :: int
    using assms by (rule grid_nearest)
  show "\<exists>k::int. doubleSupportDuration_m (doubleSupportDuration_set T d p) = of_int k * T"
    if "\<exists>n::int. 1 = of_int n * T"
    using that clamp_grid [OF assms, of d 1] unfolding ds by metis
  show "\<exists>k::int. singleSupportDuration_m (singleSupportDuration_set T d p) = of_int k * T"
    if "\<exists>n::int. 2 = of_int n * T"
    using that clamp_grid [OF assms, of d 2] unfolding ss by metis
  show "initDSPDuration_m (initDSPDuration_set d p) = clamp d 0 (16 / 10)"
    by (simp add: initDSPDuration_set_def)
  show "finalDSPDuration_m (finalDSPDuration_set d p) = clamp d 0 (16 / 10)"
    by (simp add: finalDSPDuration_set_def)
qed

theorem duration_setters_rounding_witness:
  "doubleSupportDuration_m (doubleSupportDuration_set (1 / 10) (53 / 100) sample_plan) = 1 / 2
   \<and> singleSupportDuration_m (singleSupportDuration_set (1 / 10) (53 / 100) sample_plan) = 1 / 2
   \<and> initDSPDuration_m (initDSPDuration_set (53 / 100) sample_plan) = 53 / 100
   \<and> finalDSPDuration_m (finalDSPDuration_set (53 / 100) sample_plan) = 53 / 100"
proof -
  have T: "(0::real) < 1 / 10" by simp
  from duration_setters_rounding [OF T, of "53 / 100" sample_plan]
  show ?thesis
    by (simp only: round_53) (simp add: clamp_def)
qed

text \<open>
  Claim C3 as stated fails for the initial (and final) double-support duration: with a
  sampling period of 0.1 s the input 0.55 s is stored as 0.55 s, where rounding to the
  grid and clamping would give 0.6 s.
\<close>

theorem initDSPDuration_not_rounded_counterexample:
  "initDSPDuration_m (initDSPDuration_set (11 / 20) sample_plan) = 11 / 20
   \<and> clamp (std_round ((11 / 20) / (1 / 10)) * (1 / 10)) 0 (16 / 10) = 6 / 10"
  by (simp only: round_55) (simp add: initDSPDuration_set_def clamp_def)

text \<open>
  The same happens whatever the sampling period: for every \<open>T > 0\<close> the input
  \<open>min (T / 2) 1.6\<close> is stored as given, and it is not a multiple of \<open>T\<close>.
\<close>

lemma initDSPDuration_set_off_grid:
  assumes "0 < T"
  defines "v \<equiv> min (T / 2) (16 / 10)"
  shows "initDSPDuration_m (initDSPDuration_set v p) = v"
    and "\<not> (\<exists>k::int. v = of_int k * T)"
proof -
  have v: "0 < v" "v \<le> 16 / 10" "v \<le> T / 2"
    using assms(1) by (simp_all add: v_def)
  then show "initDSPDuration_m (initDSPDuration_set v p) = v"
    by (simp add: initDSPDuration_set_def clamp_def)
  show "\<not> (\<exists>k::int. v = of_int k * T)"
  proof
    assume "\<exists>k::int. v = of_int k * T"
    then obtain k :: int where k: "v = of_int k * T"
      by blast
    have "0 < of_int k * T"
      using v(1) k by simp
    then have "0 < k"
      using assms(1) by (simp add: zero_less_mult_iff)
    then have "1 \<le> real_of_int k"
      by simp
    then have "T \<le> of_int k * T"
      using assms(1) by (simp add: mult_le_cancel_right1)
    with v(3) k assms(1) show False
      by simp
  qed
qed


section \<open>Clamping setters\<close>

lemma clamps_toI:
  assumes "lo \<le> hi"
    and "\<And>v p. member (setter v p) = clamp v lo hi"
    and "\<And>v p. setter (clamp (clamp v lo hi) lo hi) (setter v p) = setter v p"
  shows "clamps_to setter member lo hi"
  unfolding clamps_to_def
  using assms by (simp add: clamp_idem clamp_below clamp_above clamp_inside)

lemma rounds_and_clamps_toI:
  assumes T: "0 < T" and hi: "hi = of_int n * T" and pos: "0 \<le> hi"
    and m: "\<And>v p. member (setter v p) = clamp (std_round (v / T) * T) 0 hi"
    and s: "\<And>v w p. member (setter w p) = member (setter v p) \<Longrightarrow>
                 setter w (setter v p) = setter v p"
  shows "rounds_and_clamps_to T setter member hi"
  unfolding rounds_and_clamps_to_def
proof (intro allI conjI impI)
  fix v p
  show "member (setter v p) = clamp (std_round (v / T) * T) 0 hi"
    by (rule m)
  show "member (setter v p) = 0" if "v < 0"
    using grid_clamp_below [OF T pos that] by (simp add: m)
  show "member (setter v p) = hi" if "hi < v"
    using grid_clamp_above [OF T hi pos that] by (simp add: m)
  show "setter (member (setter v p)) (setter v p) = setter v p"
  proof (rule s)
    show "member (setter (member (setter v p)) p) = member (setter v p)"
      using grid_clamp_fixed [OF T hi pos, of v] by (simp add: m)
  qed
qed

text \<open>
  Claim C4, as the code has it.  The setters of the CoM height, the initial and final
  double-support durations, the swing height, the takeoff and landing pitch and the
  takeoff and landing ratio store their argument clamped to the range written in the
  header: an argument outside the range yields the nearest bound, and setting the stored
  value again changes nothing.  The setters of the double- and single-support durations
  store the argument rounded to the sampling grid and then clamped to \<open>[0, 1]\<close> and
  \<open>[0, 2]\<close>, whatever the sampling period (the last two conjuncts); when the sampling
  period is positive and divides 1 they too send an argument
  outside the range to the nearest bound and are idempotent on what they stored.  The
  setter of the takeoff offset stores its argument unchanged.  The getters of the CoM
  height and of the four durations return the member as stored.
\<close>

theorem setters_clamp:
  "clamps_to comHeight_set comHeight_m (7 / 10) (85 / 100)
   \<and> clamps_to finalDSPDuration_set finalDSPDuration_m 0 (16 / 10)
   \<and> clamps_to initDSPDuration_set initDSPDuration_m 0 (16 / 10)
   \<and> clamps_to landingPitch_set landingPitch_m (- 1) 1
   \<and> clamps_to landingRatio_set landingRatio_m 0 (1 / 2)
   \<and> clamps_to swingHeight_set swingHeight_m 0 (1 / 4)
   \<and> clamps_to takeoffPitch_set takeoffPitch_m (- 1) 1
   \<and> clamps_to takeoffRatio_set takeoffRatio_m 0 (1 / 2)
   \<and> (0 < T \<and> (\<exists>n::int. 1 = of_int n * T) \<longrightarrow>
        rounds_and_clamps_to T (doubleSupportDuration_set T) doubleSupportDuration_m 1
      \<and> rounds_and_clamps_to T (singleSupportDuration_set T) singleSupportDuration_m 2)
   \<and> takeoffOffset_m (takeoffOffset_set offset p) = offset
   \<and> takeoffOffset_set (takeoffOffset_m (takeoffOffset_set offset p)) (takeoffOffset_set offset p)
       = takeoffOffset_set offset p
   \<and> comHeight p = comHeight_m p
   \<and> doubleSupportDuration p = doubleSupportDuration_m p
   \<and> singleSupportDuration p = singleSupportDuration_m p
   \<and> initDSPDuration p = initDSPDuration_m p
   \<and> finalDSPDuration p = finalDSPDuration_m p
   \<and> doubleSupportDuration_m (doubleSupportDuration_set T d p)
       = clamp (std_round (d / T) * T) 0 1
   \<and> singleSupportDuration_m (singleSupportDuration_set T d p)
       = clamp (std_round (d / T) * T) 0 2"
proof (intro conjI impI)
  show "clamps_to comHeight_set comHeight_m (7 / 10) (85 / 100)"
    by (rule clamps_toI) (simp_all add: comHeight_set_def clamp_idem)
  show "clamps_to finalDSPDuration_set finalDSPDuration_m 0 (16 / 10)"
    by (rule clamps_toI) (simp_all add: finalDSPDuration_set_def clamp_idem)
  show "clamps_to initDSPDuration_set initDSPDuration_m 0 (16 / 10)"
    by (rule clamps_toI) (simp_all add: initDSPDuration_set_def clamp_idem)
  show "clamps_to landingPitch_set landingPitch_m (- 1) 1"
    by (rule clamps_toI) (simp_all add: landingPitch_set_def clamp_idem)
  show "clamps_to landingRatio_set landingRatio_m 0 (1 / 2)"
    by (rule clamps_toI) (simp_all add: landingRatio_set_def clamp_idem)
  show "clamps_to swingHeight_set swingHeight_m 0 (1 / 4)"
    by (rule clamps_toI) (simp_all add: swingHeight_set_def clamp_idem)
  show "clamps_to takeoffPitch_set takeoffPitch_m (- 1) 1"
    by (rule clamps_toI) (simp_all add: takeoffPitch_set_def clamp_idem)
  show "clamps_to takeoffRatio_set takeoffRatio_m 0 (1 / 2)"
    by (rule clamps_toI) (simp_all add: takeoffRatio_set_def clamp_idem)
next
  assume a: "0 < T \<and> (\<exists>n::int. 1 = of_int n * T)"
  then obtain n :: int where T: "0 < T" and one: "1 = of_int n * T"
    by blast
  have two: "2 = of_int (2 * n) * T"
    using one by simp
  show "rounds_and_clamps_to T (doubleSupportDuration_set T) doubleSupportDuration_m 1"
    by (rule rounds_and_clamps_toI [OF T one])
       (simp_all add: doubleSupportDuration_set_def Let_def)
  show "rounds_and_clamps_to T (singleSupportDuration_set T) singleSupportDuration_m 2"
    by (rule rounds_and_clamps_toI [OF T two])
       (simp_all add: singleSupportDuration_set_def Let_def)
next
  show "takeoffOffset_m (takeoffOffset_set offset p) = offset"
    by (simp add: takeoffOffset_set_def)
  show "takeoffOffset_set (takeoffOffset_m (takeoffOffset_set offset p)) (takeoffOffset_set offset p)
       = takeoffOffset_set offset p"
    by (simp add: takeoffOffset_set_def)
  show "comHeight p = comHeight_m p"
    by (simp add: comHeight_def)
  show "doubleSupportDuration p = doubleSupportDuration_m p"
    by (simp add: doubleSupportDuration_def)
  show "singleSupportDuration p = singleSupportDuration_m p"
    by (simp add: singleSupportDuration_def)
  show "initDSPDuration p = initDSPDuration_m p"
    by (simp add: initDSPDuration_def)
  show "finalDSPDuration p = finalDSPDuration_m p"
    by (simp add: finalDSPDuration_def)
  show "doubleSupportDuration_m (doubleSupportDuration_set T d p)
       = clamp (std_round (d / T) * T) 0 1"
    by (simp add: doubleSupportDuration_set_def Let_def)
  show "singleSupportDuration_m (singleSupportDuration_set T d p)
       = clamp (std_round (d / T) * T) 0 2"
    by (simp add: singleSupportDuration_set_def Let_def)
qed

theorem setters_clamp_witness:
  "comHeight_m (comHeight_set 2 sample_plan) = 85 / 100
   \<and> comHeight_set (85 / 100) (comHeight_set 2 sample_plan) = comHeight_set 2 sample_plan
   \<and> doubleSupportDuration_m (doubleSupportDuration_set (1 / 10) (3 / 2) sample_plan) = 1
   \<and> doubleSupportDuration_set (1 / 10) 1 (doubleSupportDuration_set (1 / 10) (3 / 2) sample_plan)
       = doubleSupportDuration_set (1 / 10) (3 / 2) sample_plan
   \<and> takeoffOffset_m (takeoffOffset_set (1, 2, 3) sample_plan) = (1, 2, 3)"
proof -
  note all = setters_clamp [of "1 / 10" "(1, 2, 3)" sample_plan]
  have grid: "(0::real) < 1 / 10 \<and> (\<exists>n::int. (1::real) = of_int n * (1 / 10))"
    by (auto intro: exI [of _ 10])
  from all have "clamps_to comHeight_set comHeight_m (7 / 10) (85 / 100)"
    by (rule conjunct1)
  then have ch: "(2 > (85 / 100 :: real) \<longrightarrow> comHeight_m (comHeight_set 2 sample_plan) = 85 / 100)
       \<and> comHeight_set (comHeight_m (comHeight_set 2 sample_plan)) (comHeight_set 2 sample_plan)
           = comHeight_set 2 sample_plan"
    unfolding clamps_to_def by blast
  from all grid
  have "rounds_and_clamps_to (1 / 10) (doubleSupportDuration_set (1 / 10)) doubleSupportDuration_m 1"
    by blast
  then have ds: "((1::real) < 3 / 2 \<longrightarrow>
          doubleSupportDuration_m (doubleSupportDuration_set (1 / 10) (3 / 2) sample_plan) = 1)
       \<and> doubleSupportDuration_set (1 / 10)
           (doubleSupportDuration_m (doubleSupportDuration_set (1 / 10) (3 / 2) sample_plan))
           (doubleSupportDuration_set (1 / 10) (3 / 2) sample_plan)
           = doubleSupportDuration_set (1 / 10) (3 / 2) sample_plan"
    unfolding rounds_and_clamps_to_def by blast
  from all have off: "takeoffOffset_m (takeoffOffset_set (1, 2, 3) sample_plan) = (1, 2, 3)"
    by blast
  have ch1: "comHeight_m (comHeight_set 2 sample_plan) = 85 / 100"
    using ch by simp
  have ds1: "doubleSupportDuration_m (doubleSupportDuration_set (1 / 10) (3 / 2) sample_plan) = 1"
    using ds by simp
  from ch ds off show ?thesis
    unfolding ch1 ds1 by blast
qed

text \<open>
  Claim C4 as stated fails for the double-support duration: with a sampling period of
  0.1 s the input 0.53 s lies inside \<open>[0, 1]\<close>, so clamping leaves it alone, but the
  setter stores 0.5 s.
\<close>

theorem doubleSupportDuration_set_rounds_counterexample:
  "doubleSupportDuration_m (doubleSupportDuration_set (1 / 10) (53 / 100) sample_plan) = 1 / 2
   \<and> clamp (53 / 100) 0 1 = 53 / 100"
  by (simp only: doubleSupportDuration_set_def Let_def round_53) (simp add: clamp_def)

text \<open>
  The same happens whatever the sampling period: for every \<open>T > 0\<close> the input
  \<open>min (T / 4) 1\<close> lies inside \<open>[0, 1]\<close> and is positive, and the setter stores 0.
\<close>

lemma doubleSupportDuration_set_not_plain_clamp:
  assumes "0 < T"
  defines "v \<equiv> min (T / 4) 1"
  shows "0 < v" and "v \<le> 1" and "clamp v 0 1 = v"
    and "doubleSupportDuration_m (doubleSupportDuration_set T v p) = 0"
proof -
  show v: "0 < v" "v \<le> 1"
    using assms(1) by (simp_all add: v_def)
  then show "clamp v 0 1 = v"
    by (simp add: clamp_def)
  have "0 \<le> v / T" "v / T \<le> 1 / 4"
    using assms(1) by (simp_all add: v_def min_def pos_divide_le_eq)
  then have "std_round (v / T) = 0"
    by (rule std_round_small)
  then show "doubleSupportDuration_m (doubleSupportDuration_set T v p) = 0"
    by (simp add: doubleSupportDuration_set_def Let_def clamp_def)
qed


section \<open>Swing getters\<close>

text \<open>
  Claim C9.  The getters of the swing height, the takeoff and landing pitch and the
  takeoff offset look the key up in the \<open>swingConfig\<close> of the previous contact, those of
  the takeoff and landing ratio in that of the support contact.  If the key is there (with
  a value of the getter's type) the getter returns that value; if it is absent the getter
  returns the plan's default.  The getters are functions of the plan: they return a value
  and write nothing, so no default is ever copied into a contact.
\<close>

theorem swing_getters_override:
  "(swingConfig (prevContact_m p) ''height'' = Some (Number h) \<longrightarrow> swingHeight p = Inr h)
   \<and> (swingConfig (prevContact_m p) ''height'' = None \<longrightarrow> swingHeight p = Inr (swingHeight_m p))
   \<and> (swingConfig (prevContact_m p) ''takeoff_pitch'' = Some (Number tp) \<longrightarrow>
        takeoffPitch p = Inr tp)
   \<and> (swingConfig (prevContact_m p) ''takeoff_pitch'' = None \<longrightarrow>
        takeoffPitch p = Inr (takeoffPitch_m p))
   \<and> (swingConfig (prevContact_m p) ''landing_pitch'' = Some (Number lp) \<longrightarrow>
        landingPitch p = Inr lp)
   \<and> (swingConfig (prevContact_m p) ''landing_pitch'' = None \<longrightarrow>
        landingPitch p = Inr (landingPitch_m p))
   \<and> (swingConfig (prevContact_m p) ''takeoff_offset'' = Some (Vector3 off) \<longrightarrow>
        takeoffOffset p = Inr off)
   \<and> (swingConfig (prevContact_m p) ''takeoff_offset'' = None \<longrightarrow>
        takeoffOffset p = Inr (takeoffOffset_m p))
   \<and> (swingConfig (supportContact_m p) ''takeoff_ratio'' = Some (Number tr) \<longrightarrow>
        takeoffRatio p = Inr tr)
   \<and> (swingConfig (supportContact_m p) ''takeoff_ratio'' = None \<longrightarrow>
        takeoffRatio p = Inr (takeoffRatio_m p))
   \<and> (swingConfig (supportContact_m p) ''landing_ratio'' = Some (Number lr) \<longrightarrow>
        landingRatio p = Inr lr)
   \<and> (swingConfig (supportContact_m p) ''landing_ratio'' = None \<longrightarrow>
        landingRatio p = Inr (landingRatio_m p))"
proof (intro conjI impI)
  show "swingHeight p = Inr h" if "swingConfig (prevContact_m p) ''height'' = Some (Number h)"
    using that by (simp add: swingHeight_def has_def as_double_def)
  show "swingHeight p = Inr (swingHeight_m p)" if "swingConfig (prevContact_m p) ''height'' = None"
    using that by (simp add: swingHeight_def has_def)
  show "takeoffPitch p = Inr tp"
    if "swingConfig (prevContact_m p) ''takeoff_pitch'' = Some (Number tp)"
    using that by (simp add: takeoffPitch_def has_def as_double_def)
  show "takeoffPitch p = Inr (takeoffPitch_m p)"
    if "swingConfig (prevContact_m p) ''takeoff_pitch'' = None"
    using that by (simp add: takeoffPitch_def has_def)
  show "landingPitch p = Inr lp"
    if "swingConfig (prevContact_m p) ''landing_pitch'' = Some (Number lp)"
    using that by (simp add: landingPitch_def has_def as_double_def)
  show "landingPitch p = Inr (landingPitch_m p)"
    if "swingConfig (prevContact_m p) ''landing_pitch'' = None"
    using that by (simp add: landingPitch_def has_def)
  show "takeoffOffset p = Inr off"
    if "swingConfig (prevContact_m p) ''takeoff_offset'' = Some (Vector3 off)"
    using that by (simp add: takeoffOffset_def has_def as_Vector3d_def)
  show "takeoffOffset p = Inr (takeoffOffset_m p)"
    if "swingConfig (prevContact_m p) ''takeoff_offset'' = None"
    using that by (simp add: takeoffOffset_def has_def)
  show "takeoffRatio p = Inr tr"
    if "swingConfig (supportContact_m p) ''takeoff_ratio'' = Some (Number tr)"
    using that by (simp add: takeoffRatio_def has_def as_double_def)
  show "takeoffRatio p = Inr (takeoffRatio_m p)"
    if "swingConfig (supportContact_m p) ''takeoff_ratio'' = None"
    using that by (simp add: takeoffRatio_def has_def)
  show "landingRatio p = Inr lr"
    if "swingConfig (supportContact_m p) ''landing_ratio'' = Some (Number lr)"
    using that by (simp add: landingRatio_def has_def as_double_def)
  show "landingRatio p = Inr (landingRatio_m p)"
    if "swingConfig (supportContact_m p) ''landing_ratio'' = None"
    using that by (simp add: landingRatio_def has_def)
qed

lemma sample_plan_overrides:
  "swingConfig (prevContact_m sample_plan) ''height'' = Some (Number (7 / 100))"
  "swingConfig (prevContact_m sample_plan) ''takeoff_pitch'' = None"
  "swingConfig (prevContact_m sample_plan) ''landing_pitch'' = None"
  "swingConfig (prevContact_m sample_plan) ''takeoff_offset'' = Some (Vector3 (- 3 / 100, 0, 0))"
  "swingConfig (supportContact_m sample_plan) ''takeoff_ratio'' = Some (Number (1 / 10))"
  "swingConfig (supportContact_m sample_plan) ''landing_ratio'' = None"
  by (simp_all add: sample_plan_def L0_def R1_def)

lemma sample_plan_defaults:
  "takeoffPitch_m sample_plan = 0" "landingPitch_m sample_plan = 0"
  "landingRatio_m sample_plan = 5 / 100"
  by (simp_all add: sample_plan_def)

theorem swing_getters_override_witness:
  "swingHeight sample_plan = Inr (7 / 100)
   \<and> takeoffPitch sample_plan = Inr 0
   \<and> landingPitch sample_plan = Inr 0
   \<and> takeoffOffset sample_plan = Inr (- 3 / 100, 0, 0)
   \<and> takeoffRatio sample_plan = Inr (1 / 10)
   \<and> landingRatio sample_plan = Inr (5 / 100)"
  using swing_getters_override [of sample_plan "7 / 100" 0 0 "(- 3 / 100, 0, 0)" "1 / 10" 0]
  by (simp add: sample_plan_overrides sample_plan_defaults)


section \<open>The last-step predicates\<close>

text \<open>
  The controller tells the last step by the ids of the role contacts: \<open>isLastSSP()\<close>,
  documented as true during the last step, holds when the target contact's id exceeds the
  next contact's, and \<open>isLastDSP()\<close>, documented as true after the last step, when the
  support contact's id exceeds the target contact's.  So in every state where
  \<open>support.id \<le> target.id \<le> next.id\<close> both are false.
\<close>

lemma isLast_needs_broken_ordering:
  assumes "id_c (supportContact (plan c)) \<le> id_c (targetContact (plan c))"
    and "id_c (targetContact (plan c)) \<le> id_c (nextContact (plan c))"
  shows "\<not> Controller_isLastSSP c \<and> \<not> Controller_isLastDSP c"
  using assms by (simp add: Controller_isLastSSP_def Controller_isLastDSP_def)

end
